theory Spec2Isabelle
  imports Complex_Main
begin

section \<open>Adaptive difficulty controller: data model\<close>

text \<open>
  The program is Python. A float is modelled as the real number it denotes, and the
  arithmetic on floats as real arithmetic, except in the latency trend test, whose
  outcome depends on rounding and which is modelled in double precision. Unbounded
  integers are \<open>int\<close>, dictionaries with a fixed key set are records, and the
  string-valued levels are strings. A raised exception is a value \<open>Inl e\<close> of a sum
  type.
\<close>

datatype py_error = AttributeError | NotFittedError | ValueError

text \<open>The three results of \<open>get_next_action\<close> (\<open>Literal["increase", "maintain", "decrease"]\<close>).\<close>

datatype action = increase | maintain | decrease

text \<open>The dictionary returned by \<open>PerformanceTracker.get_current_metrics\<close>.\<close>

record performance_metrics =
  total_questions :: int
  correct_count :: int
  incorrect_count :: int
  accuracy :: real
  avg_response_time :: real
  consecutive_correct :: int
  max_streak :: int
  recent_accuracy :: real
  response_time_trend :: string

section \<open>adaptive\_engine.py\<close>

text \<open>\<open>AdaptiveEngine.RULE_BASED_THRESHOLDS\<close>, one record per inner dictionary.\<close>

record increase_thresholds =
  min_accuracy :: real
  max_avg_time :: real
  min_consecutive :: int

record decrease_thresholds =
  max_accuracy :: real
  min_avg_time :: real

definition RULE_BASED_THRESHOLDS_increase :: increase_thresholds where
  "RULE_BASED_THRESHOLDS_increase =
     \<lparr> min_accuracy = 80, max_avg_time = 5, min_consecutive = 2 \<rparr>"

definition RULE_BASED_THRESHOLDS_decrease :: decrease_thresholds where
  "RULE_BASED_THRESHOLDS_decrease = \<lparr> max_accuracy = 60, min_avg_time = 8 \<rparr>"

text \<open>
  The classifier object held in \<open>self.model\<close>: \<open>predict_proba(features)[0][1]\<close> either
  raises or yields a number. \<open>self.model\<close> may also be \<open>None\<close>, on which the attribute
  access raises.
\<close>

type_synonym classifier = "real list \<Rightarrow> py_error + real"

record adaptive_engine =
  mode :: string
  model :: "classifier option"
  is_trained :: bool

definition predict_proba :: "classifier option \<Rightarrow> real list \<Rightarrow> py_error + real" where
  "predict_proba mdl features =
     (case mdl of None \<Rightarrow> Inl AttributeError | Some clf \<Rightarrow> clf features)"

text \<open>
  \<open>AdaptiveEngine.__init__\<close> with \<open>_load_or_initialize_model\<close>. The parameter \<open>stored\<close>
  is what the file system holds at \<open>models/difficulty_predictor.pkl\<close>: \<open>None\<close> when the
  file does not exist, otherwise the result of unpickling it. A fresh
  \<open>LogisticRegression\<close> raises on prediction.
\<close>

definition LogisticRegression_unfitted :: classifier where
  "LogisticRegression_unfitted = (\<lambda>features. Inl NotFittedError)"

definition load_or_initialize_model ::
  "(py_error + classifier) option \<Rightarrow> adaptive_engine \<Rightarrow> adaptive_engine" where
  "load_or_initialize_model stored self =
     (case stored of
        Some (Inr clf) \<Rightarrow> self\<lparr> model := Some clf, is_trained := True \<rparr>
      | Some (Inl e) \<Rightarrow> self\<lparr> model := None, is_trained := False \<rparr>
      | None \<Rightarrow> self\<lparr> model := Some LogisticRegression_unfitted, is_trained := False \<rparr>)"

definition AdaptiveEngine_init ::
  "(py_error + classifier) option \<Rightarrow> string \<Rightarrow> adaptive_engine" where
  "AdaptiveEngine_init stored md =
     (let self = \<lparr> mode = md, model = None, is_trained = False \<rparr>
      in if md = ''ml_based'' then load_or_initialize_model stored self else self)"

text \<open>
  \<open>_get_action_rule_based\<close>. The two outer tests and the two level guards are nested
  as in the source: a failed guard falls through to the next statement.
\<close>

definition get_action_rule_based :: "performance_metrics \<Rightarrow> string \<Rightarrow> action" where
  "get_action_rule_based pm current_difficulty =
     (let acc = accuracy pm;
          avg_time = avg_response_time pm;
          consecutive = consecutive_correct pm;
          inc = RULE_BASED_THRESHOLDS_increase;
          dec = RULE_BASED_THRESHOLDS_decrease;
          check_decrease =
            (if acc < max_accuracy dec \<or> avg_time \<ge> min_avg_time dec
             then (if current_difficulty \<noteq> ''Easy'' then decrease else maintain)
             else maintain)
      in if acc \<ge> min_accuracy inc \<and> avg_time \<le> max_avg_time inc
              \<and> consecutive \<ge> min_consecutive inc
         then (if current_difficulty \<noteq> ''Hard'' then increase else check_decrease)
         else check_decrease)"

text \<open>
  \<open>_get_action_ml_based\<close>. \<open>ml_features\<close> is the array built from the metrics
  dictionary at the head of the function. The classifier is queried first; an exception there is
  caught and answered by the rule-based logic. The accuracy safety check comes after
  the query, then the probability cut points.
\<close>

definition ml_features :: "performance_metrics \<Rightarrow> real list" where
  "ml_features pm = [accuracy pm, avg_response_time pm,
                     real_of_int (consecutive_correct pm), recent_accuracy pm]"

definition get_action_ml_based ::
  "adaptive_engine \<Rightarrow> performance_metrics \<Rightarrow> string \<Rightarrow> action" where
  "get_action_ml_based self pm current_difficulty =
     (let features = ml_features pm
      in case predict_proba (model self) features of
           Inl e \<Rightarrow> get_action_rule_based pm current_difficulty
         | Inr probability \<Rightarrow>
             if accuracy pm < 50 \<and> current_difficulty \<noteq> ''Easy'' then decrease
             else if probability > 0.6 \<and> current_difficulty \<noteq> ''Hard'' then increase
             else if probability < 0.4 \<and> current_difficulty \<noteq> ''Easy'' then decrease
             else maintain)"

text \<open>\<open>AdaptiveEngine.get_next_action\<close>: dispatch on the mode and the trained flag.\<close>

definition get_next_action ::
  "adaptive_engine \<Rightarrow> performance_metrics \<Rightarrow> string \<Rightarrow> action" where
  "get_next_action self pm current_difficulty =
     (if mode self = ''rule_based'' then get_action_rule_based pm current_difficulty
      else if mode self = ''ml_based'' \<and> is_trained self
           then get_action_ml_based self pm current_difficulty
      else get_action_rule_based pm current_difficulty)"

text \<open>\<open>HybridAdaptiveEngine.get_next_action\<close> (the subclass overrides the dispatch).\<close>

definition hybrid_get_next_action ::
  "adaptive_engine \<Rightarrow> performance_metrics \<Rightarrow> string \<Rightarrow> action" where
  "hybrid_get_next_action self pm current_difficulty =
     (let rule_action = get_action_rule_based pm current_difficulty;
          ml_action = (if is_trained self
                       then get_action_ml_based self pm current_difficulty
                       else rule_action)
      in if rule_action = ml_action then rule_action
         else if is_trained self
              then (if rule_action = maintain \<and> 70 \<le> accuracy pm \<and> accuracy pm \<le> 85
                    then ml_action else rule_action)
         else rule_action)"

section \<open>tracker.py\<close>

text \<open>
  The dictionaries of one answer. \<open>answer_event\<close> holds the two keys every consumer
  reads; a session log entry (\<open>logged_response\<close>, as written by the session) adds the
  puzzle, the answer and the level; the tracker's own \<open>response_record\<close> adds the
  correct answer and the question number.
\<close>

record puzzle_dict =
  question :: string
  operand1 :: int
  operand2 :: int
  operation :: string
  answer :: int
  puzzle_difficulty :: string

record answer_event =
  is_correct :: bool
  response_time :: real

record logged_response = answer_event +
  puzzle :: puzzle_dict
  user_answer :: real
  difficulty :: string

record response_record = logged_response +
  correct_answer :: int
  question_number :: int

text \<open>The attributes of a \<open>PerformanceTracker\<close> object.\<close>

record tracker =
  user_name :: string
  session_mode :: string
  responses :: "response_record list"
  correct_count :: int
  incorrect_count :: int
  consecutive_correct :: int
  max_consecutive_correct :: int
  total_response_time :: real

definition PerformanceTracker_init :: "string \<Rightarrow> string \<Rightarrow> tracker" where
  "PerformanceTracker_init uname smode =
     \<lparr> user_name = uname, session_mode = smode, responses = [],
       tracker.correct_count = 0, tracker.incorrect_count = 0,
       tracker.consecutive_correct = 0, max_consecutive_correct = 0,
       total_response_time = 0 \<rparr>"

text \<open>\<open>record_response\<close>: counters first, then the timing, then the stored record.\<close>

definition record_response ::
  "tracker \<Rightarrow> puzzle_dict \<Rightarrow> real \<Rightarrow> bool \<Rightarrow> real \<Rightarrow> string \<Rightarrow> tracker" where
  "record_response self pz uanswer correct rtime level =
     (let s1 = (if correct
                then (let a = self\<lparr> tracker.correct_count := tracker.correct_count self + 1 \<rparr>;
                          b = a\<lparr> tracker.consecutive_correct :=
                                   tracker.consecutive_correct a + 1 \<rparr>
                      in b\<lparr> max_consecutive_correct :=
                               max (max_consecutive_correct b) (tracker.consecutive_correct b) \<rparr>)
                else (let a = self\<lparr> tracker.incorrect_count :=
                                      tracker.incorrect_count self + 1 \<rparr>
                      in a\<lparr> tracker.consecutive_correct := 0 \<rparr>));
          s2 = s1\<lparr> total_response_time := total_response_time s1 + rtime \<rparr>;
          response_rec = \<lparr> is_correct = correct, response_time = rtime,
                           puzzle = pz, user_answer = uanswer, difficulty = level,
                           correct_answer = answer pz,
                           question_number = int (length (responses s2)) + 1 \<rparr>
      in s2\<lparr> responses := responses s2 @ [response_rec] \<rparr>)"

text \<open>Python slices \<open>xs[-3:]\<close> and \<open>xs[:-3]\<close>.\<close>

definition last3 :: "'a list \<Rightarrow> 'a list" where
  "last3 xs = drop (length xs - 3) xs"

definition before_last3 :: "'a list \<Rightarrow> 'a list" where
  "before_last3 xs = take (length xs - 3) xs"

text \<open>\<open>sum(1 for r in rs if r['is_correct'])\<close>.\<close>

definition count_correct :: "'a answer_event_scheme list \<Rightarrow> int" where
  "count_correct rs = int (length (filter is_correct rs))"

text \<open>
  Double precision. The trend test of \<open>get_current_metrics\<close> compares results of
  floating-point operations, and its outcome depends on their rounding, so these are
  modelled as the program computes them: a Python float is an IEEE 754 double, and
  each sum, quotient and product is the exact result rounded to the nearest double,
  ties to the even significand. \<open>round_double\<close> is that rounding (53 significant
  bits, least exponent \<open>- 1074\<close>; overflow to infinity, beyond \<open>2 ^ 1024\<close>, is not
  modelled). \<open>py_sum\<close> is the built-in \<open>sum\<close> as CPython computes it up to
  version 3.11: it adds from the left, starting from 0, rounding each sum (later
  versions carry a compensation term besides).
\<close>

definition round_half_even :: "real \<Rightarrow> int" where
  "round_half_even x =
     (let f = \<lfloor>x\<rfloor>; d = x - of_int f
      in if d < 1 / 2 then f
         else if d > 1 / 2 then f + 1
         else if even f then f else f + 1)"

definition round_double :: "real \<Rightarrow> real" where
  "round_double x =
     (if x = 0 then 0
      else (let e = max (\<lfloor>log 2 \<bar>x\<bar>\<rfloor> - 52) (- 1074)
            in of_int (round_half_even (x / 2 powi e)) * 2 powi e))"

fun py_sum_loop :: "real \<Rightarrow> real list \<Rightarrow> real" where
  "py_sum_loop acc [] = acc"
| "py_sum_loop acc (x # xs) = py_sum_loop (round_double (acc + x)) xs"

definition py_sum :: "real list \<Rightarrow> real" where
  "py_sum xs = py_sum_loop 0 xs"

text \<open>
  \<open>get_current_metrics\<close>. Every division of the source is guarded by a test that its
  divisor is not zero, or divides by the length of a three-element list. The trend
  test is in double precision, with the literals 1.2 and 0.8 read as the nearest
  doubles.
\<close>

definition get_current_metrics :: "tracker \<Rightarrow> performance_metrics" where
  "get_current_metrics self =
     (let total = int (length (responses self))
      in if total = 0
         then \<lparr> total_questions = 0, performance_metrics.correct_count = 0,
                performance_metrics.incorrect_count = 0, accuracy = 0,
                avg_response_time = 0, performance_metrics.consecutive_correct = 0,
                max_streak = 0, recent_accuracy = 0, response_time_trend = ''stable'' \<rparr>
         else
          (let acc = (real_of_int (tracker.correct_count self) / real_of_int total) * 100;
               avg_rt = total_response_time self / real_of_int total;
               recent_responses = (if length (responses self) \<ge> 3
                                   then last3 (responses self) else responses self);
               recent_correct = count_correct recent_responses;
               recent_acc = (if recent_responses \<noteq> []
                             then (real_of_int recent_correct
                                     / real (length recent_responses)) * 100
                             else 0);
               trend =
                 (if length (responses self) \<ge> 3
                  then (let recent_times = map response_time (last3 (responses self));
                            older_times = map response_time (before_last3 (responses self))
                        in if older_times \<noteq> []
                           then (let recent_avg = round_double
                                                    (py_sum recent_times
                                                       / real (length recent_times));
                                     older_avg = round_double
                                                   (py_sum older_times
                                                      / real (length older_times))
                                 in if recent_avg > round_double (older_avg * round_double 1.2)
                                    then ''slowing''
                                    else if recent_avg
                                              < round_double (older_avg * round_double 0.8)
                                    then ''improving''
                                    else ''stable'')
                           else ''stable'')
                  else ''stable'')
           in \<lparr> total_questions = total,
                performance_metrics.correct_count = tracker.correct_count self,
                performance_metrics.incorrect_count = tracker.incorrect_count self,
                accuracy = acc, avg_response_time = avg_rt,
                performance_metrics.consecutive_correct = tracker.consecutive_correct self,
                max_streak = max_consecutive_correct self,
                recent_accuracy = recent_acc, response_time_trend = trend \<rparr>))"

text \<open>
  A session: the answers submitted one after the other, each with the arguments of one
  \<open>record_response\<close> call (puzzle, user answer, correctness, response time, level).
\<close>

type_synonym submission = "puzzle_dict \<times> real \<times> bool \<times> real \<times> string"

fun record_all :: "tracker \<Rightarrow> submission list \<Rightarrow> tracker" where
  "record_all self [] = self"
| "record_all self ((pz, uanswer, correct, rtime, level) # rest) =
     record_all (record_response self pz uanswer correct rtime level) rest"

definition submission_correct :: "submission \<Rightarrow> bool" where
  "submission_correct e = fst (snd (snd e))"

definition submission_time :: "submission \<Rightarrow> real" where
  "submission_time e = fst (snd (snd (snd e)))"

section \<open>ml\_model.py\<close>

text \<open>
  A session of the performance log is a dictionary; \<open>session.get('responses', [])\<close>
  reads its list of answers, or the empty list when the key is absent (\<open>None\<close> here).
\<close>

definition session_get_responses :: "'r list option \<Rightarrow> 'r list" where
  "session_get_responses session = (case session of None \<Rightarrow> [] | Some rs \<Rightarrow> rs)"

text \<open>
  The streak loop of \<open>extract_features\<close>: it walks the prior answers from the newest
  and stops at the first incorrect one.
\<close>

fun streak_loop :: "'a answer_event_scheme list \<Rightarrow> int \<Rightarrow> int" where
  "streak_loop [] consecutive = consecutive"
| "streak_loop (r # rest) consecutive =
     (if is_correct r then streak_loop rest (consecutive + 1) else consecutive)"

text \<open>The body of the inner loop up to the feature list, for the prior answers \<open>responses[:i]\<close>.\<close>

definition prior_features :: "'a answer_event_scheme list \<Rightarrow> real list" where
  "prior_features prior_responses =
     (let prior_correct = count_correct prior_responses;
          prior_total = int (length prior_responses);
          recent_responses = last3 prior_responses;
          recent_correct = count_correct recent_responses;
          recent_total = int (length recent_responses);
          response_times = map response_time recent_responses;
          avg_recent_time = (if response_times \<noteq> []
                             then sum_list response_times / real (length response_times)
                             else 0);
          consecutive = streak_loop (rev prior_responses) 0;
          acc = (if prior_total > 0
                 then real_of_int prior_correct / real_of_int prior_total * 100 else 0);
          recent_acc = (if recent_total > 0
                        then real_of_int recent_correct / real_of_int recent_total * 100
                        else 0)
      in [acc, avg_recent_time, real_of_int consecutive, recent_acc])"

text \<open>
  The inner loop \<open>for i in range(2, len(responses))\<close> (the session's answers are
  \<open>resps\<close> here) and the outer loop over the sessions, both appending to the two
  result lists \<open>X\<close> and \<open>y\<close>.
\<close>

fun index_loop ::
  "'a answer_event_scheme list \<Rightarrow> nat list \<Rightarrow> real list list \<times> int list
     \<Rightarrow> real list list \<times> int list" where
  "index_loop resps [] (X, y) = (X, y)"
| "index_loop resps (i # rest) (X, y) =
     index_loop resps rest
       (X @ [prior_features (take i resps)],
        y @ [if is_correct (resps ! i) then 1 else 0])"

fun session_loop ::
  "'a answer_event_scheme list option list \<Rightarrow> real list list \<times> int list
     \<Rightarrow> real list list \<times> int list" where
  "session_loop [] (X, y) = (X, y)"
| "session_loop (session # rest) (X, y) =
     (if length (session_get_responses session) < 3
      then session_loop rest (X, y)
      else session_loop rest
             (index_loop (session_get_responses session)
                [2 ..< length (session_get_responses session)] (X, y)))"

definition extract_features ::
  "'a answer_event_scheme list option list \<Rightarrow> real list list \<times> int list" where
  "extract_features data = session_loop data ([], [])"


text \<open>The \<open>metrics\<close> dictionary of a manager (\<open>None\<close> for the empty dictionary).\<close>

record evaluation_metrics =
  train_accuracy :: real
  test_accuracy :: real
  precision :: real
  recall :: real
  f1 :: real

text \<open>The attributes of an \<open>MLModelManager\<close>, and the files holding pickled models.\<close>

record 'm model_manager =
  model_path :: string
  model :: "'m option"
  is_trained :: bool
  metrics :: "evaluation_metrics option"





text \<open>
  \<open>AdaptiveEngine.train_model\<close> (a static method). A row of \<open>training_data\<close> is a
  dictionary with a feature dictionary (its entries in insertion order, so that
  \<open>.values()\<close> is the list of second components), a target and a level. The result
  gives what the call returns or raises, the files afterwards, and the training
  accuracy it prints.
\<close>

record training_row =
  features :: "(string \<times> real) list"
  target :: int
  current_difficulty :: string


section \<open>tracker.py: export for training\<close>

text \<open>
  \<open>sum(1 for r in rs if not r['is_correct'])\<close>, the counterpart of \<open>count_correct\<close>.
\<close>

definition count_incorrect :: "'a answer_event_scheme list \<Rightarrow> int" where
  "count_incorrect rs = int (length (filter (\<lambda>r. \<not> is_correct r) rs))"

text \<open>
  The body of the loop of \<open>export_for_ml_training\<close> for index \<open>i \<ge> 2\<close>: the row built
  from the answers before \<open>i\<close> and from answer \<open>i\<close> itself. The prior answers are at
  least two, so the unguarded division of the target test does not divide by zero; its
  comparison with 0.8 agrees with the comparison of doubles for every list shorter
  than \<open>2 ^ 50\<close>.
\<close>

definition export_row :: "response_record list \<Rightarrow> nat \<Rightarrow> response_record \<Rightarrow> training_row" where
  "export_row resps i response =
     (let prior_responses = take i resps;
          prior_correct = count_correct prior_responses;
          prior_total = int (length prior_responses);
          recent_correct = count_correct (last3 prior_responses);
          recent_total = int (min 3 (length prior_responses));
          feats =
            [(''accuracy'',
                if prior_total > 0
                then real_of_int prior_correct / real_of_int prior_total * 100 else 0),
             (''response_time'',
                if prior_responses \<noteq> []
                then sum_list (map response_time (last3 prior_responses))
                       / real (min 3 (length prior_responses))
                else 0),
             (''consecutive_correct'',
                real_of_int (count_correct prior_responses - count_incorrect prior_responses)),
             (''recent_accuracy'',
                if recent_total > 0
                then real_of_int recent_correct / real_of_int recent_total * 100 else 0)];
          tgt = (if is_correct response
                      \<and> real_of_int prior_correct / real_of_int prior_total > 0.8
                 then 1 else 0)
      in \<lparr> features = feats, target = tgt, current_difficulty = difficulty response \<rparr>)"

fun export_loop ::
  "response_record list \<Rightarrow> (nat \<times> response_record) list \<Rightarrow> training_row list
     \<Rightarrow> training_row list" where
  "export_loop resps [] training_data = training_data"
| "export_loop resps ((i, response) # rest) training_data =
     (if i < 2 then export_loop resps rest training_data
      else export_loop resps rest (training_data @ [export_row resps i response]))"

definition export_for_ml_training :: "tracker \<Rightarrow> training_row list" where
  "export_for_ml_training self =
     export_loop (responses self) (List.enumerate 0 (responses self)) []"


section \<open>The feature extraction as the specification words it\<close>

text \<open>
  A logged answer carries the arguments of the \<open>record_response\<close> call that produced
  it, so a logged session can be replayed through a fresh tracker; its snapshot is
  what the metrics aggregator reports after those answers.
\<close>

definition submission_of :: "'a logged_response_scheme \<Rightarrow> submission" where
  "submission_of r = (puzzle r, user_answer r, is_correct r, response_time r, difficulty r)"

definition aggregator_snapshot :: "'a logged_response_scheme list \<Rightarrow> performance_metrics" where
  "aggregator_snapshot rs =
     get_current_metrics
       (record_all (PerformanceTracker_init [] ''rule_based'') (map submission_of rs))"

text \<open>
  The feature vector of a prefix in the specification's words: accuracy, streak and
  recent accuracy as the aggregator reports them, and the mean response time over the
  last \<open>min(3, N)\<close> answers (zero for no answers).
\<close>

definition spec_features :: "'a logged_response_scheme list \<Rightarrow> real list" where
  "spec_features rs =
     (let m = aggregator_snapshot rs;
          window = drop (length rs - min 3 (length rs)) rs
      in [accuracy m,
          (if window = [] then 0
           else sum_list (map response_time window) / real (length window)),
          real_of_int (performance_metrics.consecutive_correct m),
          recent_accuracy m])"

text \<open>
  The examples of one session and of a collection: one example for each position
  \<open>i \<ge> 2\<close> of a session with at least 3 answers, built from the answers before \<open>i\<close>
  and labelled by the correctness of answer \<open>i\<close>.
\<close>

definition spec_session_examples ::
  "'a logged_response_scheme list \<Rightarrow> (real list \<times> int) list" where
  "spec_session_examples rs =
     (if length rs \<ge> 3
      then map (\<lambda>i. (spec_features (take i rs), if is_correct (rs ! i) then 1 else 0))
             [2 ..< length rs]
      else [])"

definition spec_examples ::
  "'a logged_response_scheme list option list \<Rightarrow> (real list \<times> int) list" where
  "spec_examples data = concat (map (\<lambda>s. spec_session_examples (session_get_responses s)) data)"

section \<open>Properties of the threshold policy\<close>

lemma rule_based_unfold:
  "get_action_rule_based pm lvl =
     (if accuracy pm \<ge> 80 \<and> avg_response_time pm \<le> 5
           \<and> performance_metrics.consecutive_correct pm \<ge> 2 \<and> lvl \<noteq> ''Hard''
      then increase
      else if (accuracy pm < 60 \<or> avg_response_time pm \<ge> 8) \<and> lvl \<noteq> ''Easy''
      then decrease
      else maintain)"
  by (simp add: get_action_rule_based_def RULE_BASED_THRESHOLDS_increase_def
      RULE_BASED_THRESHOLDS_decrease_def Let_def)

text \<open>
  Claim C1. For every snapshot and level the threshold policy returns \<open>increase\<close>
  exactly when accuracy is at least 80, the average response time at most 5, the
  streak at least 2 and the level is not Hard; failing that it returns \<open>decrease\<close>
  exactly when accuracy is below 60 or the average response time at least 8, and the
  level is not Easy; failing both it returns \<open>maintain\<close>. A snapshot with accuracy 85,
  average response time 3 and streak 3 at level Easy yields \<open>increase\<close>.
\<close>

theorem threshold_policy_decide:
  "(get_action_rule_based pm lvl = increase \<longleftrightarrow>
      accuracy pm \<ge> 80 \<and> avg_response_time pm \<le> 5
        \<and> performance_metrics.consecutive_correct pm \<ge> 2 \<and> lvl \<noteq> ''Hard'')
   \<and> (get_action_rule_based pm lvl = decrease \<longleftrightarrow>
        \<not> (accuracy pm \<ge> 80 \<and> avg_response_time pm \<le> 5
             \<and> performance_metrics.consecutive_correct pm \<ge> 2 \<and> lvl \<noteq> ''Hard'')
        \<and> (accuracy pm < 60 \<or> avg_response_time pm \<ge> 8) \<and> lvl \<noteq> ''Easy'')
   \<and> (get_action_rule_based pm lvl = maintain \<longleftrightarrow>
        \<not> (accuracy pm \<ge> 80 \<and> avg_response_time pm \<le> 5
             \<and> performance_metrics.consecutive_correct pm \<ge> 2 \<and> lvl \<noteq> ''Hard'')
        \<and> \<not> ((accuracy pm < 60 \<or> avg_response_time pm \<ge> 8) \<and> lvl \<noteq> ''Easy''))
   \<and> get_action_rule_based
         \<lparr> total_questions = n, performance_metrics.correct_count = c,
           performance_metrics.incorrect_count = w, accuracy = 85,
           avg_response_time = 3, performance_metrics.consecutive_correct = 3,
           max_streak = ms, recent_accuracy = ra, response_time_trend = tr \<rparr>
         ''Easy'' = increase"
  by (simp add: rule_based_unfold)

theorem threshold_policy_decide_witness:
  "get_action_rule_based
     \<lparr> total_questions = 4, performance_metrics.correct_count = 2,
       performance_metrics.incorrect_count = 2, accuracy = 50,
       avg_response_time = 9, performance_metrics.consecutive_correct = 0,
       max_streak = 2, recent_accuracy = 100 / 3, response_time_trend = ''stable'' \<rparr>
     ''Medium'' = decrease"
  using threshold_policy_decide
    [of "\<lparr> total_questions = 4, performance_metrics.correct_count = 2,
            performance_metrics.incorrect_count = 2, accuracy = 50,
            avg_response_time = 9, performance_metrics.consecutive_correct = 0,
            max_streak = 2, recent_accuracy = 100 / 3, response_time_trend = ''stable'' \<rparr>"
        "''Medium''"]
  by simp

section \<open>Properties of the probabilistic policy and the hybrid arbiter\<close>

lemma ml_based_unfold:
  "get_action_ml_based self pm lvl =
     (case predict_proba (adaptive_engine.model self)
             [accuracy pm, avg_response_time pm,
              real_of_int (performance_metrics.consecutive_correct pm), recent_accuracy pm] of
        Inl e \<Rightarrow> get_action_rule_based pm lvl
      | Inr p \<Rightarrow>
          if accuracy pm < 50 \<and> lvl \<noteq> ''Easy'' then decrease
          else if p > 0.6 \<and> lvl \<noteq> ''Hard'' then increase
          else if p < 0.4 \<and> lvl \<noteq> ''Easy'' then decrease
          else maintain)"
  by (simp add: get_action_ml_based_def ml_features_def Let_def)

lemma rule_based_low_accuracy:
  "accuracy pm < 50 \<Longrightarrow> lvl \<noteq> ''Easy'' \<Longrightarrow> get_action_rule_based pm lvl = decrease"
  by (simp add: rule_based_unfold)

lemma ml_based_low_accuracy:
  "accuracy pm < 50 \<Longrightarrow> lvl \<noteq> ''Easy'' \<Longrightarrow> get_action_ml_based self pm lvl = decrease"
  by (simp add: ml_based_unfold rule_based_low_accuracy split: sum.split)

text \<open>
  Claim C2. For every snapshot with accuracy below 50 and every level other than Easy
  the probabilistic policy returns \<open>decrease\<close>, whatever the classifier does: the
  engine is arbitrary here, so its model may return any probability, raise, or be
  absent, and the trained flag and the mode may have any value.
\<close>

theorem safety_override_decrease:
  assumes "accuracy pm < 50" and "lvl \<noteq> ''Easy''"
  shows "get_next_action self pm lvl = decrease
         \<and> get_action_ml_based self pm lvl = decrease"
  using assms
  by (simp add: get_next_action_def ml_based_low_accuracy rule_based_low_accuracy)

theorem safety_override_decrease_witness:
  "get_next_action
     \<lparr> mode = ''ml_based'', adaptive_engine.model = Some (\<lambda>features. Inr 0.99), adaptive_engine.is_trained = True \<rparr>
     \<lparr> total_questions = 5, performance_metrics.correct_count = 2,
       performance_metrics.incorrect_count = 3, accuracy = 40,
       avg_response_time = 2, performance_metrics.consecutive_correct = 2,
       max_streak = 2, recent_accuracy = 200 / 3, response_time_trend = ''stable'' \<rparr>
     ''Hard'' = decrease"
  using safety_override_decrease
    [of "\<lparr> total_questions = 5, performance_metrics.correct_count = 2,
            performance_metrics.incorrect_count = 3, accuracy = 40,
            avg_response_time = 2, performance_metrics.consecutive_correct = 2,
            max_streak = 2, recent_accuracy = 200 / 3, response_time_trend = ''stable'' \<rparr>"
        "''Hard''"
        "\<lparr> mode = ''ml_based'', adaptive_engine.model = Some (\<lambda>features. Inr 0.99), adaptive_engine.is_trained = True \<rparr>"]
  by simp

text \<open>
  Claim C4. When the policy is ready (mode \<open>ml_based\<close>, trained flag set), the
  classifier answers with probability \<open>p\<close> and the accuracy override does not apply,
  the decision is \<open>increase\<close> exactly when \<open>p > 0.6\<close> and the level is not Hard;
  failing that \<open>decrease\<close> exactly when \<open>p < 0.4\<close> and the level is not Easy; failing
  both \<open>maintain\<close>.
\<close>

theorem probability_cut_points:
  assumes "mode self = ''ml_based''" and "adaptive_engine.is_trained self"
    and "predict_proba (adaptive_engine.model self)
           [accuracy pm, avg_response_time pm,
            real_of_int (performance_metrics.consecutive_correct pm),
            recent_accuracy pm] = Inr p"
    and "\<not> (accuracy pm < 50 \<and> lvl \<noteq> ''Easy'')"
  shows "(get_next_action self pm lvl = increase \<longleftrightarrow> p > 0.6 \<and> lvl \<noteq> ''Hard'')
       \<and> (get_next_action self pm lvl = decrease \<longleftrightarrow>
            \<not> (p > 0.6 \<and> lvl \<noteq> ''Hard'') \<and> p < 0.4 \<and> lvl \<noteq> ''Easy'')
       \<and> (get_next_action self pm lvl = maintain \<longleftrightarrow>
            \<not> (p > 0.6 \<and> lvl \<noteq> ''Hard'') \<and> \<not> (p < 0.4 \<and> lvl \<noteq> ''Easy''))"
proof -
  have "get_next_action self pm lvl = get_action_ml_based self pm lvl"
    using assms(1,2) by (simp add: get_next_action_def)
  also have "\<dots> = (if p > 0.6 \<and> lvl \<noteq> ''Hard'' then increase
                    else if p < 0.4 \<and> lvl \<noteq> ''Easy'' then decrease else maintain)"
    using assms(3,4) by (auto simp add: ml_based_unfold)
  finally show ?thesis by simp
qed

theorem probability_cut_points_witness:
  "get_next_action
     \<lparr> mode = ''ml_based'', adaptive_engine.model = Some (\<lambda>features. Inr 0.3), adaptive_engine.is_trained = True \<rparr>
     \<lparr> total_questions = 4, performance_metrics.correct_count = 3,
       performance_metrics.incorrect_count = 1, accuracy = 75,
       avg_response_time = 4, performance_metrics.consecutive_correct = 1,
       max_streak = 2, recent_accuracy = 200 / 3, response_time_trend = ''stable'' \<rparr>
     ''Medium'' = decrease"
  using probability_cut_points
    [of "\<lparr> mode = ''ml_based'', adaptive_engine.model = Some (\<lambda>features. Inr 0.3), adaptive_engine.is_trained = True \<rparr>"
        "\<lparr> total_questions = 4, performance_metrics.correct_count = 3,
            performance_metrics.incorrect_count = 1, accuracy = 75,
            avg_response_time = 4, performance_metrics.consecutive_correct = 1,
            max_streak = 2, recent_accuracy = 200 / 3, response_time_trend = ''stable'' \<rparr>"
        "0.3" "''Medium''"]
  by (simp add: predict_proba_def)

text \<open>
  Claim C3. When the rule-based action and the ML-based action are equal the hybrid
  arbiter returns that action. When they differ it returns the ML action exactly when
  the classifier is trained, the rule action is \<open>maintain\<close> and accuracy lies in the
  closed band from 70 to 85; in every other disagreement (accuracy 69 and 86 among
  them) it returns the rule action. Here \<open>r\<close> is the rule-based action and \<open>m\<close> the
  ML-based action, read either as the arbiter computes it (the rule action when the
  classifier is not trained) or as the probabilistic policy's own answer.
\<close>

theorem hybrid_arbiter_decide:
  assumes "r = get_action_rule_based pm lvl"
    and "m = (if adaptive_engine.is_trained self then get_action_ml_based self pm lvl else r)
         \<or> m = get_action_ml_based self pm lvl"
  shows "(r = m \<longrightarrow> hybrid_get_next_action self pm lvl = r)
       \<and> (r \<noteq> m \<longrightarrow>
            (hybrid_get_next_action self pm lvl = m \<longleftrightarrow>
               adaptive_engine.is_trained self \<and> r = maintain \<and> 70 \<le> accuracy pm \<and> accuracy pm \<le> 85)
            \<and> (\<not> (adaptive_engine.is_trained self \<and> r = maintain \<and> 70 \<le> accuracy pm \<and> accuracy pm \<le> 85)
                 \<longrightarrow> hybrid_get_next_action self pm lvl = r))
       \<and> (r \<noteq> m \<and> (accuracy pm = 69 \<or> accuracy pm = 86)
            \<longrightarrow> hybrid_get_next_action self pm lvl = r)"
  using assms
  by (auto simp add: hybrid_get_next_action_def Let_def)

theorem hybrid_arbiter_decide_witness:
  "hybrid_get_next_action
     \<lparr> mode = ''ml_based'', adaptive_engine.model = Some (\<lambda>features. Inr 0.9), adaptive_engine.is_trained = True \<rparr>
     \<lparr> total_questions = 4, performance_metrics.correct_count = 3,
       performance_metrics.incorrect_count = 1, accuracy = 75,
       avg_response_time = 6, performance_metrics.consecutive_correct = 1,
       max_streak = 2, recent_accuracy = 200 / 3, response_time_trend = ''stable'' \<rparr>
     ''Medium'' = increase"
  using hybrid_arbiter_decide
    [of maintain
        "\<lparr> total_questions = 4, performance_metrics.correct_count = 3,
            performance_metrics.incorrect_count = 1, accuracy = 75,
            avg_response_time = 6, performance_metrics.consecutive_correct = 1,
            max_streak = 2, recent_accuracy = 200 / 3, response_time_trend = ''stable'' \<rparr>"
        "''Medium''" increase
        "\<lparr> mode = ''ml_based'', adaptive_engine.model = Some (\<lambda>features. Inr 0.9), adaptive_engine.is_trained = True \<rparr>"]
  by (simp add: rule_based_unfold ml_based_unfold predict_proba_def)

text \<open>
  Claim C5. Whatever the snapshot and the classifier state, none of the three policies
  returns \<open>increase\<close> at level Hard or \<open>decrease\<close> at level Easy. The guard suppresses
  the action and control falls through: at Hard the threshold policy with its increase
  condition met returns \<open>maintain\<close>, at Easy with its decrease condition met it returns
  \<open>maintain\<close>, and the probabilistic policy with a probability above 0.6 at Hard (and
  no accuracy override) or below 0.4 at Easy returns \<open>maintain\<close>.
\<close>

theorem boundary_guard:
  "get_action_rule_based pm ''Hard'' \<noteq> increase
   \<and> get_action_rule_based pm ''Easy'' \<noteq> decrease
   \<and> get_action_ml_based self pm ''Hard'' \<noteq> increase
   \<and> get_action_ml_based self pm ''Easy'' \<noteq> decrease
   \<and> get_next_action self pm ''Hard'' \<noteq> increase
   \<and> get_next_action self pm ''Easy'' \<noteq> decrease
   \<and> hybrid_get_next_action self pm ''Hard'' \<noteq> increase
   \<and> hybrid_get_next_action self pm ''Easy'' \<noteq> decrease
   \<and> (accuracy pm \<ge> 80 \<and> avg_response_time pm \<le> 5
        \<and> performance_metrics.consecutive_correct pm \<ge> 2
        \<longrightarrow> get_action_rule_based pm ''Hard'' = maintain)
   \<and> (accuracy pm < 60 \<or> avg_response_time pm \<ge> 8
        \<longrightarrow> get_action_rule_based pm ''Easy'' = maintain)
   \<and> (predict_proba (adaptive_engine.model self)
          [accuracy pm, avg_response_time pm,
           real_of_int (performance_metrics.consecutive_correct pm),
           recent_accuracy pm] = Inr p
        \<longrightarrow> (p > 0.6 \<and> accuracy pm \<ge> 50 \<longrightarrow> get_action_ml_based self pm ''Hard'' = maintain)
          \<and> (p < 0.4 \<longrightarrow> get_action_ml_based self pm ''Easy'' = maintain))"
proof -
  have r: "get_action_rule_based pm ''Hard'' \<noteq> increase"
    "get_action_rule_based pm ''Easy'' \<noteq> decrease"
    by (simp_all add: rule_based_unfold)
  have m: "get_action_ml_based self pm ''Hard'' \<noteq> increase"
    "get_action_ml_based self pm ''Easy'' \<noteq> decrease"
    using r by (simp_all add: ml_based_unfold split: sum.split)
  have g: "get_next_action self pm ''Hard'' \<noteq> increase"
    "get_next_action self pm ''Easy'' \<noteq> decrease"
    using r m by (simp_all add: get_next_action_def)
  have h: "hybrid_get_next_action self pm ''Hard'' \<noteq> increase"
    "hybrid_get_next_action self pm ''Easy'' \<noteq> decrease"
    using r m by (simp_all add: hybrid_get_next_action_def Let_def)
  have f1: "accuracy pm \<ge> 80 \<and> avg_response_time pm \<le> 5
        \<and> performance_metrics.consecutive_correct pm \<ge> 2
        \<longrightarrow> get_action_rule_based pm ''Hard'' = maintain"
    by (simp add: rule_based_unfold)
  have f2: "accuracy pm < 60 \<or> avg_response_time pm \<ge> 8
        \<longrightarrow> get_action_rule_based pm ''Easy'' = maintain"
    by (simp add: rule_based_unfold)
  have f3: "predict_proba (adaptive_engine.model self)
          [accuracy pm, avg_response_time pm,
           real_of_int (performance_metrics.consecutive_correct pm),
           recent_accuracy pm] = Inr p
        \<longrightarrow> (p > 0.6 \<and> accuracy pm \<ge> 50 \<longrightarrow> get_action_ml_based self pm ''Hard'' = maintain)
          \<and> (p < 0.4 \<longrightarrow> get_action_ml_based self pm ''Easy'' = maintain)"
    by (simp add: ml_based_unfold)
  show ?thesis using r m g h f1 f2 f3 by blast
qed

theorem boundary_guard_witness:
  "get_action_rule_based
     \<lparr> total_questions = 4, performance_metrics.correct_count = 4,
       performance_metrics.incorrect_count = 0, accuracy = 100,
       avg_response_time = 2, performance_metrics.consecutive_correct = 4,
       max_streak = 4, recent_accuracy = 100, response_time_trend = ''stable'' \<rparr>
     ''Hard'' = maintain
   \<and> get_action_ml_based
     \<lparr> mode = ''ml_based'', adaptive_engine.model = Some (\<lambda>features. Inr 0.9), adaptive_engine.is_trained = True \<rparr>
     \<lparr> total_questions = 4, performance_metrics.correct_count = 4,
       performance_metrics.incorrect_count = 0, accuracy = 100,
       avg_response_time = 2, performance_metrics.consecutive_correct = 4,
       max_streak = 4, recent_accuracy = 100, response_time_trend = ''stable'' \<rparr>
     ''Hard'' = maintain"
  using boundary_guard
    [of "\<lparr> total_questions = 4, performance_metrics.correct_count = 4,
            performance_metrics.incorrect_count = 0, accuracy = 100,
            avg_response_time = 2, performance_metrics.consecutive_correct = 4,
            max_streak = 4, recent_accuracy = 100, response_time_trend = ''stable'' \<rparr>"
        "\<lparr> mode = ''ml_based'', adaptive_engine.model = Some (\<lambda>features. Inr 0.9), adaptive_engine.is_trained = True \<rparr>"
        "0.9"]
  by (simp add: predict_proba_def)

section \<open>Properties of the metrics aggregator\<close>

lemma record_response_fields:
  "responses (record_response t pz ua c rt lv) =
     responses t @ [\<lparr> is_correct = c, response_time = rt, puzzle = pz, user_answer = ua,
                      difficulty = lv, correct_answer = answer pz,
                      question_number = int (length (responses t)) + 1 \<rparr>]"
  "tracker.correct_count (record_response t pz ua c rt lv) =
     (if c then tracker.correct_count t + 1 else tracker.correct_count t)"
  "tracker.incorrect_count (record_response t pz ua c rt lv) =
     (if c then tracker.incorrect_count t else tracker.incorrect_count t + 1)"
  "tracker.consecutive_correct (record_response t pz ua c rt lv) =
     (if c then tracker.consecutive_correct t + 1 else 0)"
  "max_consecutive_correct (record_response t pz ua c rt lv) =
     (if c then max (max_consecutive_correct t) (tracker.consecutive_correct t + 1)
      else max_consecutive_correct t)"
  "total_response_time (record_response t pz ua c rt lv) = total_response_time t + rt"
  "user_name (record_response t pz ua c rt lv) = user_name t"
  "session_mode (record_response t pz ua c rt lv) = session_mode t"
  by (simp_all add: record_response_def Let_def)

lemma record_all_length:
  "length (responses (record_all t evs)) = length (responses t) + length evs"
  by (induction t evs rule: record_all.induct) (simp_all add: record_response_fields)

lemma record_all_is_correct:
  "map is_correct (responses (record_all t evs)) =
     map is_correct (responses t) @ map submission_correct evs"
  by (induction t evs rule: record_all.induct)
     (simp_all add: record_response_fields submission_correct_def)

lemma record_all_response_time:
  "map response_time (responses (record_all t evs)) =
     map response_time (responses t) @ map submission_time evs"
  by (induction t evs rule: record_all.induct)
     (simp_all add: record_response_fields submission_time_def)

lemma record_all_counts:
  "tracker.correct_count (record_all t evs) + tracker.incorrect_count (record_all t evs) =
     tracker.correct_count t + tracker.incorrect_count t + int (length evs)"
  by (induction t evs rule: record_all.induct) (simp_all add: record_response_fields)

lemma record_response_streak_le:
  "0 \<le> tracker.consecutive_correct t \<and> tracker.consecutive_correct t \<le> max_consecutive_correct t
   \<Longrightarrow>
   0 \<le> tracker.consecutive_correct (record_response t pz ua c rt lv)
   \<and> tracker.consecutive_correct (record_response t pz ua c rt lv)
     \<le> max_consecutive_correct (record_response t pz ua c rt lv)"
  by (simp add: record_response_fields)

lemma record_all_streak_le:
  "0 \<le> tracker.consecutive_correct t \<and> tracker.consecutive_correct t \<le> max_consecutive_correct t
   \<Longrightarrow>
   0 \<le> tracker.consecutive_correct (record_all t evs)
   \<and> tracker.consecutive_correct (record_all t evs) \<le> max_consecutive_correct (record_all t evs)"
proof (induction t evs rule: record_all.induct)
  case (1 self)
  then show ?case by simp
next
  case (2 self pz uanswer correct rtime level rest)
  from "2.prems"
  have "0 \<le> tracker.consecutive_correct (record_response self pz uanswer correct rtime level)
     \<and> tracker.consecutive_correct (record_response self pz uanswer correct rtime level)
     \<le> max_consecutive_correct (record_response self pz uanswer correct rtime level)"
    by (rule record_response_streak_le)
  then show ?case using "2.IH" by simp
qed

lemma record_all_total_time:
  "total_response_time (record_all t evs) =
     total_response_time t + sum_list (map submission_time evs)"
  by (induction t evs rule: record_all.induct)
     (simp_all add: record_response_fields submission_time_def)

lemma record_all_correct_count:
  "tracker.correct_count (record_all t evs) =
     tracker.correct_count t + int (length (filter submission_correct evs))"
  by (induction t evs rule: record_all.induct)
     (simp_all add: record_response_fields submission_correct_def)

lemma record_response_owner:
  "record_response (t\<lparr> user_name := u, session_mode := s \<rparr>) pz ua c rt lv =
     (record_response t pz ua c rt lv)\<lparr> user_name := u, session_mode := s \<rparr>"
  by (simp add: record_response_def Let_def)

lemma record_all_owner:
  "record_all (t\<lparr> user_name := u, session_mode := s \<rparr>) evs =
     (record_all t evs)\<lparr> user_name := u, session_mode := s \<rparr>"
  by (induction t evs rule: record_all.induct) (simp_all add: record_response_owner)

lemma get_current_metrics_owner:
  "get_current_metrics (t\<lparr> user_name := u, session_mode := s \<rparr>) = get_current_metrics t"
  by (simp add: get_current_metrics_def Let_def)

lemma init_owner:
  "PerformanceTracker_init u s =
     (PerformanceTracker_init u' s')\<lparr> user_name := u, session_mode := s \<rparr>"
  by (simp add: PerformanceTracker_init_def)

lemma snapshot_owner_independent:
  "get_current_metrics (record_all (PerformanceTracker_init u s) evs) =
   get_current_metrics (record_all (PerformanceTracker_init u' s') evs)"
  by (subst init_owner [of u s u' s']) (simp only: record_all_owner get_current_metrics_owner)

text \<open>
  Claim C6. For every sequence of recorded answers the snapshot satisfies
  \<open>correct_count + incorrect_count = total_questions\<close> (which is the number of
  answers) and \<open>consecutive_correct \<le> max_streak\<close>; and the snapshot is a function of
  the answer sequence alone: two trackers, whatever their user name and session mode,
  fed the same sequence produce the same snapshot.
\<close>

theorem snapshot_invariants:
  "performance_metrics.correct_count
       (get_current_metrics (record_all (PerformanceTracker_init u s) evs))
     + performance_metrics.incorrect_count
         (get_current_metrics (record_all (PerformanceTracker_init u s) evs))
     = total_questions (get_current_metrics (record_all (PerformanceTracker_init u s) evs))
   \<and> total_questions (get_current_metrics (record_all (PerformanceTracker_init u s) evs))
     = int (length evs)
   \<and> performance_metrics.consecutive_correct
         (get_current_metrics (record_all (PerformanceTracker_init u s) evs))
     \<le> max_streak (get_current_metrics (record_all (PerformanceTracker_init u s) evs))
   \<and> get_current_metrics (record_all (PerformanceTracker_init u s) evs)
     = get_current_metrics (record_all (PerformanceTracker_init u' s') evs)"
proof -
  let ?t = "record_all (PerformanceTracker_init u s) evs"
  have len: "length (responses ?t) = length evs"
    by (simp add: record_all_length PerformanceTracker_init_def)
  have cnt: "tracker.correct_count ?t + tracker.incorrect_count ?t = int (length evs)"
    by (simp add: record_all_counts PerformanceTracker_init_def)
  have str: "tracker.consecutive_correct ?t \<le> max_consecutive_correct ?t"
    using record_all_streak_le [of "PerformanceTracker_init u s" evs]
    by (simp add: PerformanceTracker_init_def)
  have a: "performance_metrics.correct_count (get_current_metrics ?t)
             + performance_metrics.incorrect_count (get_current_metrics ?t)
           = total_questions (get_current_metrics ?t)"
    using len cnt by (simp add: get_current_metrics_def Let_def)
  have b: "total_questions (get_current_metrics ?t) = int (length evs)"
    using len by (simp add: get_current_metrics_def Let_def)
  have c: "performance_metrics.consecutive_correct (get_current_metrics ?t)
           \<le> max_streak (get_current_metrics ?t)"
    using str by (simp add: get_current_metrics_def Let_def)
  show ?thesis
    using a b c snapshot_owner_independent [of u s evs u' s'] by blast
qed

lemma init_fields:
  "responses (PerformanceTracker_init u s) = []"
  "tracker.correct_count (PerformanceTracker_init u s) = 0"
  "tracker.incorrect_count (PerformanceTracker_init u s) = 0"
  "tracker.consecutive_correct (PerformanceTracker_init u s) = 0"
  "max_consecutive_correct (PerformanceTracker_init u s) = 0"
  "total_response_time (PerformanceTracker_init u s) = 0"
  by (simp_all add: PerformanceTracker_init_def)








section \<open>Properties of the feature extraction\<close>

lemma record_all_snoc:
  "record_all t (evs @ [(pz, ua, c, rt, lv)]) =
     record_response (record_all t evs) pz ua c rt lv"
  by (induction t evs rule: record_all.induct) simp_all

lemma tracker_streak:
  "tracker.consecutive_correct (record_all (PerformanceTracker_init u s) evs) =
     int (length (takeWhile id (rev (map submission_correct evs))))"
proof (induction evs rule: rev_induct)
  case Nil
  show ?case by (simp add: init_fields)
next
  case (snoc e evs)
  obtain pz ua c rt lv where e: "e = (pz, ua, c, rt, lv)" by (cases e)
  show ?case using snoc
    by (simp add: e record_all_snoc record_response_fields submission_correct_def)
qed

lemma streak_loop_takeWhile:
  "streak_loop xs k = k + int (length (takeWhile is_correct xs))"
  by (induction xs arbitrary: k) simp_all

lemma takeWhile_id_map:
  "length (takeWhile id (map f xs)) = length (takeWhile f xs)"
  by (induction xs) simp_all

lemma streak_loop_rev:
  "streak_loop (rev rs) 0 = int (length (takeWhile id (rev (map is_correct rs))))"
proof -
  have "rev (map is_correct rs) = map is_correct (rev rs)" by (simp add: rev_map)
  then show ?thesis by (simp only: streak_loop_takeWhile takeWhile_id_map)
qed

lemma count_correct_map:
  "count_correct rs = int (length (filter id (map is_correct rs)))"
  by (simp add: count_correct_def filter_map comp_def)

lemma submission_of_fields:
  "submission_correct (submission_of r) = is_correct r"
  "submission_time (submission_of r) = response_time r"
  by (simp_all add: submission_correct_def submission_time_def submission_of_def)

lemma last3_Nil: "(last3 xs = []) = (xs = [])"
  by (cases xs) (simp_all add: last3_def)

lemma last3_map: "map f (last3 xs) = last3 (map f xs)"
  by (simp add: last3_def drop_map)

lemma count_correct_cong:
  "map is_correct xs = map is_correct ys \<Longrightarrow> count_correct xs = count_correct ys"
  by (simp add: count_correct_map)

lemma replay_facts:
  fixes rs :: "'a logged_response_scheme list"
  defines "t \<equiv> record_all (PerformanceTracker_init [] ''rule_based'') (map submission_of rs)"
  shows "length (responses t) = length rs"
    and "map is_correct (responses t) = map is_correct rs"
    and "map response_time (responses t) = map response_time rs"
    and "tracker.correct_count t = count_correct rs"
    and "tracker.consecutive_correct t = streak_loop (rev rs) 0"
    and "total_response_time t = sum_list (map response_time rs)"
proof -
  show "length (responses t) = length rs"
    by (simp add: t_def record_all_length init_fields)
  show "map is_correct (responses t) = map is_correct rs"
    by (simp add: t_def record_all_is_correct init_fields submission_of_fields comp_def)
  show "map response_time (responses t) = map response_time rs"
    by (simp add: t_def record_all_response_time init_fields submission_of_fields comp_def)
  show "tracker.correct_count t = count_correct rs"
    by (simp add: t_def record_all_correct_count init_fields filter_map comp_def
        submission_of_fields count_correct_def)
  show "tracker.consecutive_correct t = streak_loop (rev rs) 0"
    by (simp add: t_def tracker_streak submission_of_fields streak_loop_rev comp_def)
  show "total_response_time t = sum_list (map response_time rs)"
    by (simp add: t_def record_all_total_time init_fields submission_of_fields comp_def)
qed

lemma snapshot_fields:
  fixes rs :: "'a logged_response_scheme list"
  shows "accuracy (aggregator_snapshot rs) =
           (if rs = [] then 0 else real_of_int (count_correct rs) / real (length rs) * 100)"
    and "avg_response_time (aggregator_snapshot rs) =
           (if rs = [] then 0 else sum_list (map response_time rs) / real (length rs))"
    and "performance_metrics.consecutive_correct (aggregator_snapshot rs) =
           streak_loop (rev rs) 0"
    and "recent_accuracy (aggregator_snapshot rs) =
           (if rs = [] then 0
            else real_of_int (count_correct (last3 rs)) / real (length (last3 rs)) * 100)"
proof -
  let ?t = "record_all (PerformanceTracker_init [] ''rule_based'') (map submission_of rs)"
  note f = replay_facts [of rs]
  have e: "(responses ?t = []) = (rs = [])" using f(1) by (metis length_0_conv)
  have l3: "length (last3 (responses ?t)) = length (last3 rs)"
    by (simp add: last3_def f(1))
  have c3: "count_correct (last3 (responses ?t)) = count_correct (last3 rs)"
    by (rule count_correct_cong) (simp only: last3_map f(2))
  have sm: "responses ?t = last3 (responses ?t)" if "\<not> 3 \<le> length (responses ?t)"
    using that by (simp add: last3_def)
  have ne: "last3 (responses ?t) \<noteq> []" if "rs \<noteq> []"
    using that e by (simp add: last3_Nil)
  show "accuracy (aggregator_snapshot rs) =
           (if rs = [] then 0 else real_of_int (count_correct rs) / real (length rs) * 100)"
    by (simp add: aggregator_snapshot_def get_current_metrics_def Let_def e f(1) f(4))
  show "avg_response_time (aggregator_snapshot rs) =
           (if rs = [] then 0 else sum_list (map response_time rs) / real (length rs))"
    by (simp add: aggregator_snapshot_def get_current_metrics_def Let_def e f(1) f(6))
  show "performance_metrics.consecutive_correct (aggregator_snapshot rs) =
           streak_loop (rev rs) 0"
    by (cases "rs = []")
       (simp_all add: aggregator_snapshot_def get_current_metrics_def Let_def e f(5)
          init_fields)
  show "recent_accuracy (aggregator_snapshot rs) =
           (if rs = [] then 0
            else real_of_int (count_correct (last3 rs)) / real (length (last3 rs)) * 100)"
  proof (cases "rs = []")
    case True
    then show ?thesis
      by (simp add: aggregator_snapshot_def get_current_metrics_def Let_def init_fields)
  next
    case False
    have "recent_accuracy (get_current_metrics ?t) =
            real_of_int (count_correct (last3 (responses ?t)))
              / real (length (last3 (responses ?t))) * 100"
    proof (cases "3 \<le> length (responses ?t)")
      case True
      then show ?thesis using False ne
        by (simp add: get_current_metrics_def Let_def e)
    next
      case b: False
      have "recent_accuracy (get_current_metrics ?t) =
            real_of_int (count_correct (responses ?t))
              / real (length (responses ?t)) * 100"
        using False b by (simp add: get_current_metrics_def Let_def e)
      then show ?thesis using sm [OF b] by simp
    qed
    then show ?thesis using False by (simp add: aggregator_snapshot_def l3 c3)
  qed
qed

lemma prior_features_spec:
  fixes rs :: "'a logged_response_scheme list"
  shows "prior_features rs = spec_features rs"
proof -
  have w: "drop (length rs - min 3 (length rs)) rs = last3 rs"
    by (simp add: last3_def min_def)
  have z: "(last3 rs = []) = (rs = [])" by (rule last3_Nil)
  show ?thesis
    unfolding spec_features_def Let_def w snapshot_fields
    by (simp add: prior_features_def Let_def z)
qed


lemma index_loop_append:
  "index_loop rs idxs (X, y) =
     (X @ map (\<lambda>i. prior_features (take i rs)) idxs,
      y @ map (\<lambda>i. if is_correct (rs ! i) then 1 else 0) idxs)"
  by (induction idxs arbitrary: X y) simp_all

lemma session_examples_loop:
  fixes rs :: "'a logged_response_scheme list"
  assumes "3 \<le> length rs"
  shows "index_loop rs [2 ..< length rs] (X, y) =
           (X @ map fst (spec_session_examples rs), y @ map snd (spec_session_examples rs))"
  using assms
  by (simp add: index_loop_append spec_session_examples_def prior_features_spec comp_def)

lemma session_examples_short:
  "length rs < 3 \<Longrightarrow> spec_session_examples rs = []"
  by (simp add: spec_session_examples_def)

lemma session_loop_append:
  fixes data :: "'a logged_response_scheme list option list"
  shows "session_loop data (X, y) =
           (X @ map fst (spec_examples data), y @ map snd (spec_examples data))"
proof (induction data arbitrary: X y)
  case Nil
  show ?case by (simp add: spec_examples_def)
next
  case (Cons s data)
  show ?case
  proof (cases "length (session_get_responses s) < 3")
    case True
    then show ?thesis
      using Cons [of X y] by (simp add: spec_examples_def session_examples_short)
  next
    case False
    then have "3 \<le> length (session_get_responses s)" by simp
    from session_examples_loop [OF this, of X y] False show ?thesis
      by (simp add: Cons spec_examples_def)
  qed
qed

lemma extract_features_examples:
  fixes data :: "'a logged_response_scheme list option list"
  shows "extract_features data = (map fst (spec_examples data), map snd (spec_examples data))
       \<and> length (spec_examples data)
           = (\<Sum>s\<leftarrow>data. length (session_get_responses s) - 2)
       \<and> (\<forall>s \<in> set data. length (session_get_responses s) < 3 \<longrightarrow>
             spec_session_examples (session_get_responses s) = []
             \<and> extract_features [s] = ([], []))"
proof -
  have a: "extract_features data = (map fst (spec_examples data), map snd (spec_examples data))"
    by (simp add: extract_features_def session_loop_append)
  have l: "length (spec_session_examples rs) = length rs - 2" for rs :: "'a logged_response_scheme list"
    by (simp add: spec_session_examples_def)
  have b: "length (spec_examples data) = (\<Sum>s\<leftarrow>data. length (session_get_responses s) - 2)"
    by (simp add: spec_examples_def length_concat comp_def l)
  have c: "\<forall>s \<in> set data. length (session_get_responses s) < 3 \<longrightarrow>
             spec_session_examples (session_get_responses s) = []
             \<and> extract_features [s] = ([], [])"
    by (simp add: extract_features_def session_examples_short)
  show ?thesis using a b c by blast
qed

lemma export_loop_append:
  "export_loop R (ps @ qs) td = export_loop R qs (export_loop R ps td)"
  by (induction R ps td rule: export_loop.induct) simp_all

lemma enumerate_snoc:
  "List.enumerate n (xs @ [x]) = List.enumerate n xs @ [(n + length xs, x)]"
  by (simp add: enumerate_eq_zip add.commute)

lemma export_loop_enumerate:
  "export_loop R (List.enumerate 0 xs) [] = map (\<lambda>i. export_row R i (xs ! i)) [2 ..< length xs]"
proof (induction xs rule: rev_induct)
  case Nil
  show ?case by simp
next
  case (snoc x xs)
  have m: "map (\<lambda>i. export_row R i ((xs @ [x]) ! i)) [2 ..< length xs]
           = map (\<lambda>i. export_row R i (xs ! i)) [2 ..< length xs]"
    by (rule map_cong) (simp_all add: nth_append)
  show ?case
  proof (cases "length xs < 2")
    case True
    then show ?thesis
      by (simp add: enumerate_snoc export_loop_append snoc)
  next
    case False
    then have u: "[2 ..< length (xs @ [x])] = [2 ..< length xs] @ [length xs]" by simp
    show ?thesis
      unfolding u using False
      by (simp add: enumerate_snoc export_loop_append snoc m del: upt_Suc)
  qed
qed

lemma export_for_ml_training_rows:
  "export_for_ml_training t =
     map (\<lambda>i. export_row (responses t) i (responses t ! i)) [2 ..< length (responses t)]"
  by (simp add: export_for_ml_training_def export_loop_enumerate)

lemma length_last3: "length (last3 xs) = min 3 (length xs)"
  by (simp add: last3_def min_def)

lemma export_row_fields:
  assumes "2 \<le> i" and "i \<le> length rs"
  shows "map_of (features (export_row rs i r)) ''accuracy'' = Some (spec_features (take i rs) ! 0)"
    and "map_of (features (export_row rs i r)) ''response_time''
           = Some (spec_features (take i rs) ! 1)"
    and "map_of (features (export_row rs i r)) ''recent_accuracy''
           = Some (spec_features (take i rs) ! 3)"
    and "target (export_row rs i r) =
           (if is_correct r \<and> accuracy (aggregator_snapshot (take i rs)) > 80 then 1 else 0)"
    and "current_difficulty (export_row rs i r) = difficulty r"
proof -
  let ?p = "take i rs"
  have ne: "?p \<noteq> []" using assms by auto
  have len: "length ?p = i" using assms by simp
  have pf: "spec_features ?p = prior_features ?p" by (simp add: prior_features_spec)
  show "map_of (features (export_row rs i r)) ''accuracy'' = Some (spec_features (take i rs) ! 0)"
    unfolding pf by (simp add: export_row_def prior_features_def Let_def)
  show "map_of (features (export_row rs i r)) ''response_time''
           = Some (spec_features (take i rs) ! 1)"
    unfolding pf using ne
    by (simp add: export_row_def prior_features_def Let_def length_last3 last3_Nil)
  show "map_of (features (export_row rs i r)) ''recent_accuracy''
           = Some (spec_features (take i rs) ! 3)"
    unfolding pf using ne
    by (simp add: export_row_def prior_features_def Let_def length_last3 last3_Nil)
  have pos: "0 < real (length ?p)" using ne by simp
  have q: "(q > 0.8) = (q * 100 > 80)" for q :: real by auto
  have "(real_of_int (count_correct ?p) / real (length ?p) > 0.8)
        = (real_of_int (count_correct ?p) / real (length ?p) * 100 > 80)"
    by (rule q)
  then show "target (export_row rs i r) =
           (if is_correct r \<and> accuracy (aggregator_snapshot (take i rs)) > 80 then 1 else 0)"
    using ne by (simp add: export_row_def Let_def snapshot_fields)
  show "current_difficulty (export_row rs i r) = difficulty r"
    by (simp add: export_row_def Let_def)
qed


text \<open>
  Claim C9 says that the feature extraction for training emits, for each position
  \<open>i \<ge> 2\<close> of a session, an example with the trailing streak of the answers before
  \<open>i\<close> and with label 1 if answer \<open>i\<close> was correct. \<open>extract_features\<close> does, but
  \<open>export_for_ml_training\<close>, whose rows \<open>train_model\<close> takes, does not: after a wrong and
  a right answer, a third right answer gets label 0, and the streak entry is 0 where
  the aggregator reports a streak of 1.
\<close>

theorem export_label_counterexample:
  "(let pz = \<lparr> question = ''1 + 1 = ?'', operand1 = 1, operand2 = 1, operation = ''+'',
                 answer = 2, puzzle_difficulty = ''Easy'' \<rparr>;
        t = record_all (PerformanceTracker_init ''ann'' ''rule_based'')
              [(pz, 3, False, 2, ''Easy''), (pz, 2, True, 2, ''Easy''),
               (pz, 2, True, 2, ''Easy'')]
    in export_for_ml_training t =
         [\<lparr> features = [(''accuracy'', 50), (''response_time'', 2),
                        (''consecutive_correct'', 0), (''recent_accuracy'', 50)],
            target = 0, current_difficulty = ''Easy'' \<rparr>]
       \<and> is_correct (responses t ! 2)
       \<and> performance_metrics.consecutive_correct
            (aggregator_snapshot (take 2 (responses t))) = 1)"
  by (simp add: Let_def export_for_ml_training_rows export_row_def record_response_fields
      init_fields last3_def count_correct_def count_incorrect_def snapshot_fields
      upt_rec numeral_2_eq_2 numeral_3_eq_3)

text \<open>
  Claim C9, amended. For every collection of logged sessions \<open>extract_features\<close>
  emits exactly the examples of \<open>spec_examples\<close>, in order: for each session with at
  least 3 answers and each position \<open>i \<ge> 2\<close> one example, whose features come from
  the answers before \<open>i\<close> (accuracy, trailing streak and recent accuracy as the metrics
  aggregator reports them for that prefix, mean response time over its last
  \<open>min(3, i)\<close> answers) and whose label is 1 if answer \<open>i\<close> was correct and 0
  otherwise; a session with \<open>n\<close> answers contributes \<open>n - 2\<close> examples, none when
  \<open>n < 3\<close>. For every tracker \<open>export_for_ml_training\<close> likewise emits one row for
  each position \<open>i \<ge> 2\<close> and none for fewer than 3 answers; the accuracy, response
  time and recent accuracy entries of the row are those of the prefix before \<open>i\<close> by
  the same rules, its level is that of answer \<open>i\<close>, and its label is 1 exactly when
  answer \<open>i\<close> was correct and the accuracy of the prefix is above 80 percent.
\<close>

theorem training_examples:
  fixes data :: "'a logged_response_scheme list option list"
  shows "extract_features data = (map fst (spec_examples data), map snd (spec_examples data))
       \<and> length (spec_examples data)
           = (\<Sum>s\<leftarrow>data. length (session_get_responses s) - 2)
       \<and> (\<forall>s \<in> set data. length (session_get_responses s) < 3 \<longrightarrow>
             spec_session_examples (session_get_responses s) = []
             \<and> extract_features [s] = ([], []))
       \<and> length (export_for_ml_training t) = length (responses t) - 2
       \<and> (\<forall>k < length (responses t) - 2.
             map_of (features (export_for_ml_training t ! k)) ''accuracy''
               = Some (spec_features (take (k + 2) (responses t)) ! 0)
             \<and> map_of (features (export_for_ml_training t ! k)) ''response_time''
               = Some (spec_features (take (k + 2) (responses t)) ! 1)
             \<and> map_of (features (export_for_ml_training t ! k)) ''recent_accuracy''
               = Some (spec_features (take (k + 2) (responses t)) ! 3)
             \<and> target (export_for_ml_training t ! k)
               = (if is_correct (responses t ! (k + 2))
                     \<and> accuracy (aggregator_snapshot (take (k + 2) (responses t))) > 80
                  then 1 else 0)
             \<and> current_difficulty (export_for_ml_training t ! k)
               = difficulty (responses t ! (k + 2)))"
proof -
  have len: "length (export_for_ml_training t) = length (responses t) - 2"
    by (simp add: export_for_ml_training_rows)
  have row: "export_for_ml_training t ! k
               = export_row (responses t) (k + 2) (responses t ! (k + 2))"
    if "k < length (responses t) - 2" for k
    using that by (simp add: export_for_ml_training_rows add.commute)
  have rows: "\<forall>k < length (responses t) - 2.
             map_of (features (export_for_ml_training t ! k)) ''accuracy''
               = Some (spec_features (take (k + 2) (responses t)) ! 0)
             \<and> map_of (features (export_for_ml_training t ! k)) ''response_time''
               = Some (spec_features (take (k + 2) (responses t)) ! 1)
             \<and> map_of (features (export_for_ml_training t ! k)) ''recent_accuracy''
               = Some (spec_features (take (k + 2) (responses t)) ! 3)
             \<and> target (export_for_ml_training t ! k)
               = (if is_correct (responses t ! (k + 2))
                     \<and> accuracy (aggregator_snapshot (take (k + 2) (responses t))) > 80
                  then 1 else 0)
             \<and> current_difficulty (export_for_ml_training t ! k)
               = difficulty (responses t ! (k + 2))"
  proof (intro allI impI)
    fix k assume k: "k < length (responses t) - 2"
    then have b: "2 \<le> k + 2" "k + 2 \<le> length (responses t)" by simp_all
    show "map_of (features (export_for_ml_training t ! k)) ''accuracy''
               = Some (spec_features (take (k + 2) (responses t)) ! 0)
             \<and> map_of (features (export_for_ml_training t ! k)) ''response_time''
               = Some (spec_features (take (k + 2) (responses t)) ! 1)
             \<and> map_of (features (export_for_ml_training t ! k)) ''recent_accuracy''
               = Some (spec_features (take (k + 2) (responses t)) ! 3)
             \<and> target (export_for_ml_training t ! k)
               = (if is_correct (responses t ! (k + 2))
                     \<and> accuracy (aggregator_snapshot (take (k + 2) (responses t))) > 80
                  then 1 else 0)
             \<and> current_difficulty (export_for_ml_training t ! k)
               = difficulty (responses t ! (k + 2))"
      unfolding row [OF k] using export_row_fields [OF b] by blast
  qed
  show ?thesis
    using extract_features_examples [of data] len rows by blast
qed

theorem training_examples_witness:
  "(let pz = \<lparr> question = ''1 + 1 = ?'', operand1 = 1, operand2 = 1, operation = ''+'',
                 answer = 2, puzzle_difficulty = ''Easy'' \<rparr>;
        r = (\<lambda>c t. \<lparr> is_correct = c, response_time = t, puzzle = pz,
                       user_answer = 2, difficulty = ''Easy'' \<rparr>);
        t = record_all (PerformanceTracker_init ''ann'' ''rule_based'')
              [(pz, 2, True, 2, ''Easy''), (pz, 2, True, 3, ''Easy''),
               (pz, 2, True, 1, ''Medium''), (pz, 2, True, 4, ''Medium'')]
    in extract_features [Some [r True 2, r True 3, r True 1, r False 4],
                         Some [r True 2, r False 3], None]
       = ([[100, 5 / 2, 2, 100], [100, 2, 3, 100]], [1, 0])
     \<and> length (export_for_ml_training t) = 2
     \<and> target (export_for_ml_training t ! 1) = 1
     \<and> map_of (features (export_for_ml_training t ! 1)) ''response_time'' = Some 2)"
  using training_examples
    [of "[Some [\<lparr> is_correct = True, response_time = 2,
                   puzzle = \<lparr> question = ''1 + 1 = ?'', operand1 = 1, operand2 = 1,
                              operation = ''+'', answer = 2, puzzle_difficulty = ''Easy'' \<rparr>,
                   user_answer = 2, difficulty = ''Easy'' \<rparr>,
                 \<lparr> is_correct = True, response_time = 3,
                   puzzle = \<lparr> question = ''1 + 1 = ?'', operand1 = 1, operand2 = 1,
                              operation = ''+'', answer = 2, puzzle_difficulty = ''Easy'' \<rparr>,
                   user_answer = 2, difficulty = ''Easy'' \<rparr>,
                 \<lparr> is_correct = True, response_time = 1,
                   puzzle = \<lparr> question = ''1 + 1 = ?'', operand1 = 1, operand2 = 1,
                              operation = ''+'', answer = 2, puzzle_difficulty = ''Easy'' \<rparr>,
                   user_answer = 2, difficulty = ''Easy'' \<rparr>,
                 \<lparr> is_correct = False, response_time = 4,
                   puzzle = \<lparr> question = ''1 + 1 = ?'', operand1 = 1, operand2 = 1,
                              operation = ''+'', answer = 2, puzzle_difficulty = ''Easy'' \<rparr>,
                   user_answer = 2, difficulty = ''Easy'' \<rparr>],
           Some [\<lparr> is_correct = True, response_time = 2,
                   puzzle = \<lparr> question = ''1 + 1 = ?'', operand1 = 1, operand2 = 1,
                              operation = ''+'', answer = 2, puzzle_difficulty = ''Easy'' \<rparr>,
                   user_answer = 2, difficulty = ''Easy'' \<rparr>,
                 \<lparr> is_correct = False, response_time = 3,
                   puzzle = \<lparr> question = ''1 + 1 = ?'', operand1 = 1, operand2 = 1,
                              operation = ''+'', answer = 2, puzzle_difficulty = ''Easy'' \<rparr>,
                   user_answer = 2, difficulty = ''Easy'' \<rparr>],
           None]"
        "record_all (PerformanceTracker_init ''ann'' ''rule_based'')
              [(\<lparr> question = ''1 + 1 = ?'', operand1 = 1, operand2 = 1,
                              operation = ''+'', answer = 2, puzzle_difficulty = ''Easy'' \<rparr>,
                2, True, 2, ''Easy''),
               (\<lparr> question = ''1 + 1 = ?'', operand1 = 1, operand2 = 1,
                              operation = ''+'', answer = 2, puzzle_difficulty = ''Easy'' \<rparr>,
                2, True, 3, ''Easy''),
               (\<lparr> question = ''1 + 1 = ?'', operand1 = 1, operand2 = 1,
                              operation = ''+'', answer = 2, puzzle_difficulty = ''Easy'' \<rparr>,
                2, True, 1, ''Medium''),
               (\<lparr> question = ''1 + 1 = ?'', operand1 = 1, operand2 = 1,
                              operation = ''+'', answer = 2, puzzle_difficulty = ''Easy'' \<rparr>,
                2, True, 4, ''Medium'')]"]
  apply (simp only: Let_def)
  apply (elim conjE)
  apply (drule spec [of _ 1])
  apply (simp add: spec_examples_def spec_session_examples_def spec_features_def
      snapshot_fields session_get_responses_def record_response_fields init_fields
      last3_def count_correct_def upt_rec numeral_2_eq_2 numeral_3_eq_3)
  done

section \<open>Inference features against training features\<close>

lemma inference_features_components:
  fixes rs :: "'a logged_response_scheme list"
  shows "ml_features (aggregator_snapshot rs) ! 0 = prior_features rs ! 0"
    and "ml_features (aggregator_snapshot rs) ! 2 = prior_features rs ! 2"
    and "ml_features (aggregator_snapshot rs) ! 3 = prior_features rs ! 3"
    and "ml_features (aggregator_snapshot rs) ! 1
           = (if rs = [] then 0 else sum_list (map response_time rs) / real (length rs))"
    and "prior_features rs ! 1
           = (if rs = [] then 0
              else sum_list (map response_time (last3 rs)) / real (length (last3 rs)))"
proof -
  show "ml_features (aggregator_snapshot rs) ! 0 = prior_features rs ! 0"
    unfolding prior_features_spec by (simp add: ml_features_def spec_features_def Let_def)
  show "ml_features (aggregator_snapshot rs) ! 2 = prior_features rs ! 2"
    unfolding prior_features_spec by (simp add: ml_features_def spec_features_def Let_def)
  show "ml_features (aggregator_snapshot rs) ! 3 = prior_features rs ! 3"
    unfolding prior_features_spec by (simp add: ml_features_def spec_features_def Let_def)
  show "ml_features (aggregator_snapshot rs) ! 1
           = (if rs = [] then 0 else sum_list (map response_time rs) / real (length rs))"
    by (simp add: ml_features_def snapshot_fields)
  show "prior_features rs ! 1
           = (if rs = [] then 0
              else sum_list (map response_time (last3 rs)) / real (length (last3 rs)))"
    by (simp add: prior_features_def Let_def last3_Nil)
qed

text \<open>
  Claim C7 says that the feature vector passed to the classifier at inference is,
  component by component, the same function of the event log as the vector the
  classifier was trained on, the second component being the mean response time over
  the last \<open>min(3, N)\<close> answers. Accuracy, streak and recent accuracy do agree
  (\<open>inference_features_components\<close>), but the second component at inference is the
  tracker's mean over all answers. After four correct answers taking 10, 1, 1 and 1
  seconds the policy passes \<open>13 / 4\<close> where the training extraction computes \<open>1\<close>.
\<close>

theorem inference_features_mismatch:
  "(let pz = \<lparr> question = ''1 + 1 = ?'', operand1 = 1, operand2 = 1, operation = ''+'',
                 answer = 2, puzzle_difficulty = ''Easy'' \<rparr>;
        t = record_all (PerformanceTracker_init ''ann'' ''ml_based'')
              [(pz, 2, True, 10, ''Easy''), (pz, 2, True, 1, ''Easy''),
               (pz, 2, True, 1, ''Easy''), (pz, 2, True, 1, ''Easy'')]
    in ml_features (get_current_metrics t) = [100, 13 / 4, 4, 100]
       \<and> prior_features (responses t) = [100, 1, 4, 100]
       \<and> ml_features (get_current_metrics t) \<noteq> prior_features (responses t))"
  by (simp add: Let_def ml_features_def get_current_metrics_def prior_features_def
      record_response_fields init_fields last3_def count_correct_def)

section \<open>Properties of the training operations\<close>




end
